theory Spec2Isabelle
  imports Complex_Main "HOL-Library.Sublist"
begin

section \<open>JavaScript values\<close>

text \<open>
  The snippets are JavaScript and TypeScript. Documents, replication flags and status
  objects are JavaScript values: \<open>undefined\<close>, \<open>null\<close>, booleans, numbers, strings and
  objects. A number is an IEEE double; the model takes the reals with the two infinities
  and \<open>NaN\<close>, which contain every double and on which truthiness, \<open>===\<close> and \<open>>\<close> read
  a double exactly as JavaScript does (\<open>-0\<close> is \<open>Fin 0\<close>). A string is its sequence of
  code units. An object is the list of its own properties; an array is an object too.
\<close>

datatype jsnum = NaN | NInf | Fin real | PInf

datatype jsval =
    JUndefined
  | JNull
  | JBool bool
  | JNum jsnum
  | JStr string
  | JObj "(string \<times> jsval) list"

type_synonym jsobj = "(string \<times> jsval) list"

text \<open>\<open>obj.key\<close> on an object: the property's value, \<open>undefined\<close> when the object has none.\<close>

definition field :: "jsobj \<Rightarrow> string \<Rightarrow> jsval" where
  "field obj k = (case map_of obj k of None \<Rightarrow> JUndefined | Some v \<Rightarrow> v)"

text \<open>ToBoolean: what \<open>if (v)\<close>, \<open>!v\<close> and \<open>v || w\<close> test.\<close>

fun truthy :: "jsval \<Rightarrow> bool" where
  "truthy JUndefined = False"
| "truthy JNull = False"
| "truthy (JBool b) = b"
| "truthy (JNum n) = (n \<noteq> NaN \<and> n \<noteq> Fin 0)"
| "truthy (JStr s) = (s \<noteq> [])"
| "truthy (JObj kvs) = True"


section \<open>The push filter of the push-filter snippet\<close>


section \<open>The console\<close>

text \<open>
  \<open>console.log\<close> and \<open>console.error\<close> are the only effect of the handlers below. A
  handler's result is the list of console calls it made, in order, and the exception it
  threw, if any.
\<close>

datatype console_call = ConsoleLog "jsval list" | ConsoleError "jsval list"

datatype js_error = TypeError | ReferenceError string

text \<open>
  \<open>v.key\<close> on any value: reading a property of \<open>undefined\<close> or \<open>null\<close> throws a
  TypeError; an object gives its property; a boolean, a number or a string has no own
  property of the names read here (\<open>message\<close>, \<open>code\<close>, \<open>tasks\<close>, \<open>title\<close>).
\<close>

fun member :: "jsval \<Rightarrow> string \<Rightarrow> js_error + jsval" where
  "member JUndefined k = Inl TypeError"
| "member JNull k = Inl TypeError"
| "member (JObj kvs) k = Inr (field kvs k)"
| "member v k = Inr JUndefined"

text \<open>\<open>v === n\<close> for a number literal \<open>n\<close>, as a \<open>case n:\<close> label compares.\<close>

definition strict_eq_num :: "jsval \<Rightarrow> real \<Rightarrow> bool" where
  "strict_eq_num v n = (v = JNum (Fin n))"

text \<open>\<open>v === 'literal'\<close> for a string literal.\<close>

definition strict_eq_str :: "jsval \<Rightarrow> string \<Rightarrow> bool" where
  "strict_eq_str v s = (v = JStr s)"

section \<open>The status handler of the error-handling snippet\<close>

text \<open>
  The \<open>switch (error.code)\<close> of replication_snippets.js, lines 304 to 328: the first
  matching label runs, labels 500, 502, 503 and 504 fall through to one body, every body
  ends in \<open>break\<close>, and \<open>default\<close> is last.
\<close>

definition code_switch :: "jsval \<Rightarrow> console_call list" where
  "code_switch code =
     (if strict_eq_num code 401 then [ConsoleError [JStr ''Unauthorized - check credentials'']]
      else if strict_eq_num code 404 then [ConsoleError [JStr ''Database not found on server'']]
      else if strict_eq_num code 408 then [ConsoleLog [JStr ''Request timeout - will retry'']]
      else if strict_eq_num code 429 then [ConsoleLog [JStr ''Too many requests - will retry'']]
      else if strict_eq_num code 500 \<or> strict_eq_num code 502 \<or> strict_eq_num code 503
              \<or> strict_eq_num code 504
        then [ConsoleLog [JStr ''Server error - will retry'']]
      else if strict_eq_num code 1001 then [ConsoleLog [JStr ''DNS resolution error - will retry'']]
      else [ConsoleError [JStr ''Unexpected error code:'', code]])"

text \<open>The check of \<open>status.status\<close> after the switch (lines 332 to 336).\<close>

definition status_after_error :: "jsobj \<Rightarrow> console_call list" where
  "status_after_error status =
     (if strict_eq_str (field status ''status'') ''stopped''
        then [ConsoleLog [JStr ''Replicator stopped - permanent error'']]
      else if strict_eq_str (field status ''status'') ''offline''
        then [ConsoleLog [JStr ''Replicator offline - will retry connection'']]
      else [])"

text \<open>
  \<^verbatim>\<open>replicator.onStatusChange = (status) => {
      if (status.error) {
          const error = status.error;
          console.error('Replication error:', error.message);
          if (error.code) { switch (error.code) { ... } }
          if (status.status === 'stopped') { ... } else if (status.status === 'offline') { ... }
      }
  };\<close>
  (lines 296 to 338).
\<close>

definition error_handling_onStatusChange :: "jsobj \<Rightarrow> console_call list \<times> js_error option" where
  "error_handling_onStatusChange status =
     (let error = field status ''error'' in
      if truthy error then
        (case member error ''message'' of
           Inl e \<Rightarrow> ([], Some e)
         | Inr message \<Rightarrow>
             (let out1 = [ConsoleError [JStr ''Replication error:'', message]] in
              case member error ''code'' of
                Inl e \<Rightarrow> (out1, Some e)
              | Inr code \<Rightarrow>
                  (let out2 = out1 @ (if truthy code then code_switch code else [])
                   in (out2 @ status_after_error status, None))))
      else ([], None))"

text \<open>
  The three kinds of report the switch makes: an error report that announces no retry
  (the bodies of 401 and 404), a report that the replicator will retry (the \<open>console.log\<close>
  bodies ending in \<open>will retry\<close>), and the default report of an unexpected code.
\<close>

datatype report = NoRetryReport | WillRetryReport | UnexpectedReport

fun report_of :: "console_call \<Rightarrow> report option" where
  "report_of (ConsoleError [JStr s]) =
     (if s = ''Unauthorized - check credentials'' \<or> s = ''Database not found on server''
      then Some NoRetryReport else None)"
| "report_of (ConsoleLog [JStr s]) =
     (if s = ''Request timeout - will retry'' \<or> s = ''Too many requests - will retry''
         \<or> s = ''Server error - will retry'' \<or> s = ''DNS resolution error - will retry''
      then Some WillRetryReport else None)"
| "report_of (ConsoleError [JStr s, code]) =
     (if s = ''Unexpected error code:'' then Some UnexpectedReport else None)"
| "report_of c = None"

text \<open>The claim's table from codes to reports.\<close>

definition expected_report :: "jsval \<Rightarrow> report" where
  "expected_report code =
     (if code \<in> JNum ` Fin ` {401, 404} then NoRetryReport
      else if code \<in> JNum ` Fin ` {408, 429, 500, 502, 503, 504, 1001} then WillRetryReport
      else UnexpectedReport)"

section \<open>The operators \<open>||\<close> and \<open>>\<close>\<close>

text \<open>
  \<open>a || b\<close> is \<open>a\<close> when \<open>a\<close> is truthy and \<open>b\<close> otherwise.
\<close>

definition js_or :: "jsval \<Rightarrow> jsval \<Rightarrow> jsval" where
  "js_or a b = (if truthy a then a else b)"

text \<open>
  \<open>a > b\<close> is the language's relational comparison: both operands are made primitive
  (an object by its \<open>toString\<close>); two strings compare by code units; otherwise both are
  converted to numbers and compare as numbers, and a comparison with \<open>NaN\<close> is false.

  Three conversions belong to the JavaScript runtime and not to the snippets: the string
  an object converts to, the string a number prints as, and the number a string converts
  to (which rounds a numeric literal to the nearest double). They are parameters. What
  the language fixes without rounding is written out: the empty string converts to \<open>0\<close>,
  and a non-empty string of ASCII letters other than \<open>Infinity\<close> is no numeric literal
  and converts to \<open>NaN\<close>.
\<close>

record runtime =
  object_to_string :: "jsobj \<Rightarrow> string"
  number_to_string :: "jsnum \<Rightarrow> string"
  numeric_string :: "string \<Rightarrow> jsnum"

definition ascii_letter :: "char \<Rightarrow> bool" where
  "ascii_letter c =
     (let n = (of_char c :: nat) in (65 \<le> n \<and> n \<le> 90) \<or> (97 \<le> n \<and> n \<le> 122))"

definition StringToNumber :: "runtime \<Rightarrow> string \<Rightarrow> jsnum" where
  "StringToNumber rt s =
     (if s = [] then Fin 0
      else if list_all ascii_letter s \<and> s \<noteq> ''Infinity'' then NaN
      else numeric_string rt s)"

fun ToPrimitive :: "runtime \<Rightarrow> jsval \<Rightarrow> jsval" where
  "ToPrimitive rt (JObj kvs) = JStr (object_to_string rt kvs)"
| "ToPrimitive rt v = v"

fun ToNumber :: "runtime \<Rightarrow> jsval \<Rightarrow> jsnum" where
  "ToNumber rt JUndefined = NaN"
| "ToNumber rt JNull = Fin 0"
| "ToNumber rt (JBool b) = (if b then Fin 1 else Fin 0)"
| "ToNumber rt (JNum n) = n"
| "ToNumber rt (JStr s) = StringToNumber rt s"
| "ToNumber rt (JObj kvs) = StringToNumber rt (object_to_string rt kvs)"

text \<open>\<open>x < y\<close> on numbers; \<open>None\<close> is the language's "undefined" when either is \<open>NaN\<close>.\<close>

fun num_less :: "jsnum \<Rightarrow> jsnum \<Rightarrow> bool option" where
  "num_less NaN y = None"
| "num_less x NaN = None"
| "num_less (Fin x) (Fin y) = Some (x < y)"
| "num_less NInf y = Some (y \<noteq> NInf)"
| "num_less PInf y = Some False"
| "num_less (Fin x) NInf = Some False"
| "num_less (Fin x) PInf = Some True"

text \<open>Strings compare code unit by code unit; a proper prefix is smaller.\<close>

fun string_less :: "string \<Rightarrow> string \<Rightarrow> bool" where
  "string_less [] [] = False"
| "string_less [] (y # ys) = True"
| "string_less (x # xs) [] = False"
| "string_less (x # xs) (y # ys) =
     (if (of_char x :: nat) < of_char y then True
      else if (of_char y :: nat) < of_char x then False
      else string_less xs ys)"

fun IsLessThan :: "runtime \<Rightarrow> jsval \<Rightarrow> jsval \<Rightarrow> bool option" where
  "IsLessThan rt (JStr a) (JStr b) = Some (string_less a b)"
| "IsLessThan rt px py = num_less (ToNumber rt px) (ToNumber rt py)"

definition js_gt :: "runtime \<Rightarrow> jsval \<Rightarrow> jsval \<Rightarrow> bool" where
  "js_gt rt x y = (IsLessThan rt (ToPrimitive rt y) (ToPrimitive rt x) = Some True)"

text \<open>
  A runtime to evaluate examples with. The examples below compare numbers, the empty
  string and strings of letters only, and print strings only, so none of its three
  functions is ever applied.
\<close>

definition letters_runtime :: runtime where
  "letters_runtime =
     \<lparr>object_to_string = (\<lambda>kvs. ''[object Object]''),
      number_to_string = (\<lambda>n. ''NaN''),
      numeric_string = (\<lambda>s. NaN)\<rparr>"

section \<open>The conflict resolver of the conflict-resolver snippet\<close>

text \<open>
  \<^verbatim>\<open>conflictResolver: async (documentID, local, remote) => {
      if (!local) { return remote; }
      if (!remote) { return local; }
      const localTime = local.updatedAt || 0;
      const remoteTime = remote.updatedAt || 0;
      if (remoteTime > localTime) { return remote; } else { return local; }
  }\<close>
  (replication_snippets.js, lines 412 to 432). The replicator passes each side as a
  document or, when that side is deleted, as nothing: \<open>None\<close>. A document is an object and
  so truthy. The function is \<open>async\<close>; the model gives the value its promise resolves to.
\<close>

definition conflictResolver ::
  "runtime \<Rightarrow> jsval \<Rightarrow> jsobj option \<Rightarrow> jsobj option \<Rightarrow> jsobj option" where
  "conflictResolver rt documentID local remote =
     (case local of
        None \<Rightarrow> remote
      | Some l \<Rightarrow>
          (case remote of
             None \<Rightarrow> local
           | Some r \<Rightarrow>
               (let localTime = js_or (field l ''updatedAt'') (JNum (Fin 0));
                    remoteTime = js_or (field r ''updatedAt'') (JNum (Fin 0))
                in if js_gt rt remoteTime localTime then remote else local)))"

text \<open>
  Two readings of "\<open>updatedAt\<close>, taken as 0 when missing". The first is the claim's: only
  a document without the property (its value is \<open>undefined\<close>) counts as 0. The second
  lists every falsy value.
\<close>

definition zero_when_missing :: "jsval \<Rightarrow> jsval" where
  "zero_when_missing v = (if v = JUndefined then JNum (Fin 0) else v)"

definition zero_when_falsy :: "jsval \<Rightarrow> jsval" where
  "zero_when_falsy v =
     (if v \<in> {JUndefined, JNull, JBool False, JNum (Fin 0), JNum NaN, JStr []}
      then JNum (Fin 0) else v)"

section \<open>The page\<close>

text \<open>
  \<open>updateTaskList\<close> works on the browser's document. The page is the tree of its nodes:
  a text node, or an element with a tag, attributes and children.
\<close>

datatype node = Text string | Element string "(string \<times> string) list" "node list"

text \<open>
  \<open>document.getElementById(i)\<close> gives the first element, in tree order, whose \<open>id\<close>
  attribute is \<open>i\<close>, or \<open>null\<close>. \<open>find_path\<close> gives the place of that element: the child
  indices that lead to it from the root.
\<close>

fun find_path :: "string \<Rightarrow> node \<Rightarrow> nat list option"
  and find_path_list :: "string \<Rightarrow> node list \<Rightarrow> nat \<Rightarrow> nat list option" where
  "find_path i (Text s) = None"
| "find_path i (Element tag attrs kids) =
     (if map_of attrs ''id'' = Some i then Some [] else find_path_list i kids 0)"
| "find_path_list i [] n = None"
| "find_path_list i (k # ks) n =
     (case find_path i k of Some p \<Rightarrow> Some (n # p) | None \<Rightarrow> find_path_list i ks (Suc n))"

text \<open>The node at a place, and the page with the children of the element at a place replaced.\<close>

fun subtree_at :: "node \<Rightarrow> nat list \<Rightarrow> node option" where
  "subtree_at n [] = Some n"
| "subtree_at (Text s) (i # p) = None"
| "subtree_at (Element t a kids) (i # p) =
     (if i < length kids then subtree_at (kids ! i) p else None)"

fun set_kids_at :: "node \<Rightarrow> nat list \<Rightarrow> node list \<Rightarrow> node" where
  "set_kids_at (Text s) p new = Text s"
| "set_kids_at (Element t a kids) [] new = Element t a new"
| "set_kids_at (Element t a kids) (i # p) new =
     Element t a (if i < length kids then kids[i := set_kids_at (kids ! i) p new] else kids)"


text \<open>
  ToString, and the conversion of a value assigned to a nullable DOM string attribute
  such as \<open>textContent\<close>: \<open>undefined\<close> and \<open>null\<close> become the empty string.
\<close>

definition ToString :: "runtime \<Rightarrow> jsval \<Rightarrow> string" where
  "ToString rt v =
     (case v of
        JUndefined \<Rightarrow> ''undefined''
      | JNull \<Rightarrow> ''null''
      | JBool b \<Rightarrow> (if b then ''true'' else ''false'')
      | JNum n \<Rightarrow> number_to_string rt n
      | JStr s \<Rightarrow> s
      | JObj kvs \<Rightarrow> object_to_string rt kvs)"

definition dom_string :: "runtime \<Rightarrow> jsval \<Rightarrow> string" where
  "dom_string rt v = (case v of JUndefined \<Rightarrow> [] | JNull \<Rightarrow> [] | _ \<Rightarrow> ToString rt v)"

text \<open>
  \<open>const li = document.createElement('li'); li.textContent = v;\<close>: a fresh \<open>li\<close> without
  attributes whose only child is the text of \<open>v\<close>, and no child when that text is empty.
\<close>

definition li_with_text :: "runtime \<Rightarrow> jsval \<Rightarrow> node" where
  "li_with_text rt v = Element ''li'' [] (if dom_string rt v = [] then [] else [Text (dom_string rt v)])"

section \<open>updateTaskList\<close>

text \<open>
  \<^verbatim>\<open>function updateTaskList(results: any[]) {
      const taskList = document.getElementById('task-list');
      if (taskList) {
          taskList.innerHTML = '';
          for (const row of results) {
              const task = row.tasks;
              const li = document.createElement('li');
              li.textContent = task.title;
              taskList.appendChild(li);
          }
      }
  }\<close>
  (code_snippets.js, lines 562 to 574). The function mutates the page; the model returns
  the page it leaves and the exception it threw, if any. The loop carries the children
  of the list so far: \<open>row.tasks\<close> and \<open>task.title\<close> throw a TypeError on \<open>undefined\<close> and
  \<open>null\<close>, which ends the function with the items appended until then.
\<close>

fun updateTaskList_loop :: "runtime \<Rightarrow> jsval list \<Rightarrow> node list \<Rightarrow> node list \<times> js_error option" where
  "updateTaskList_loop rt [] kids = (kids, None)"
| "updateTaskList_loop rt (row # rows) kids =
     (case member row ''tasks'' of
        Inl e \<Rightarrow> (kids, Some e)
      | Inr task \<Rightarrow>
          (case member task ''title'' of
             Inl e \<Rightarrow> (kids, Some e)
           | Inr title \<Rightarrow> updateTaskList_loop rt rows (kids @ [li_with_text rt title])))"

text \<open>
  An element is truthy and \<open>null\<close> is not. \<open>taskList.innerHTML = ''\<close> removes every child
  of the element, so the loop starts from no children.
\<close>

definition updateTaskList :: "runtime \<Rightarrow> node \<Rightarrow> jsval list \<Rightarrow> node \<times> js_error option" where
  "updateTaskList rt page results =
     (case find_path ''task-list'' page of
        None \<Rightarrow> (page, None)
      | Some p \<Rightarrow>
          (case updateTaskList_loop rt results [] of
             (kids, err) \<Rightarrow> (set_kids_at page p kids, err)))"

text \<open>\<open>row.tasks.title\<close>, for stating what the list items show.\<close>

definition row_title :: "jsval \<Rightarrow> js_error + jsval" where
  "row_title row = (case member row ''tasks'' of Inl e \<Rightarrow> Inl e | Inr task \<Rightarrow> member task ''title'')"

text \<open>An example page: a heading and a task list with one stale item.\<close>

definition page1 :: node where
  "page1 = Element ''body'' []
     [Element ''h1'' [] [Text ''Tasks''],
      Element ''ul'' [(''id'', ''task-list'')] [Element ''li'' [] [Text ''stale'']]]"

section \<open>The SDK, as far as the TaskManager class uses it\<close>

text \<open>
  The class calls the external SDK: \<open>Database.open\<close>, \<open>createQuery\<close>, the \<open>parameters\<close>
  setter of a query, \<open>addChangeListener\<close> and \<open>remove\<close> on the token it returns. The SDK is
  not part of the snippets. It is modelled by what these calls are documented to do to
  the listeners of a query: each database, query and token is a fresh handle,
  \<open>addChangeListener\<close> registers a listener under its token, and \<open>token.remove()\<close> takes
  that listener away.
\<close>

record sdk_state =
  next_handle :: nat
  active_listeners :: "nat list"
  query_parameters :: "(nat \<times> jsobj) list"

definition fresh_sdk :: sdk_state where
  "fresh_sdk = \<lparr>next_handle = 0, active_listeners = [], query_parameters = []\<rparr>"

definition new_handle :: "sdk_state \<Rightarrow> nat \<times> sdk_state" where
  "new_handle sdk = (next_handle sdk, sdk\<lparr>next_handle := Suc (next_handle sdk)\<rparr>)"

definition set_parameters :: "nat \<Rightarrow> jsobj \<Rightarrow> sdk_state \<Rightarrow> sdk_state" where
  "set_parameters q params sdk = sdk\<lparr>query_parameters := (q, params) # query_parameters sdk\<rparr>"

definition addChangeListener :: "sdk_state \<Rightarrow> nat \<times> sdk_state" where
  "addChangeListener sdk =
     (case new_handle sdk of
        (token, sdk') \<Rightarrow> (token, sdk'\<lparr>active_listeners := active_listeners sdk' @ [token]\<rparr>))"

definition token_remove :: "nat \<Rightarrow> sdk_state \<Rightarrow> sdk_state" where
  "token_remove token sdk = sdk\<lparr>active_listeners := removeAll token (active_listeners sdk)\<rparr>"

section \<open>The TaskManager class of the live-query-lifecycle snippet\<close>

text \<open>
  \<^verbatim>\<open>class TaskManager {
      private query: Query | null = null;
      private database: Database | null = null;
      private listenerToken: ListenerToken | null = null;
      async start() { ... }
      onResultsChanged(results: QueryAliases[]) { ... }
      updateParameters(userId: string) { ... }
      stop() { ... }
      private updateUI(_: QueryAliases[]) { }
  }\<close>
  (queries.ts, lines 142 to 192). A field is \<open>None\<close> when it is \<open>null\<close>.
\<close>

record TaskManager =
  query :: "nat option"
  database :: "nat option"
  listenerToken :: "nat option"

definition new_TaskManager :: TaskManager where
  "new_TaskManager = \<lparr>query = None, database = None, listenerToken = None\<rparr>"

text \<open>What a method can change: the object's fields, the SDK and the console.\<close>

record program_state =
  manager :: TaskManager
  sdk :: sdk_state
  console :: "console_call list"

definition initial_state :: program_state where
  "initial_state = \<lparr>manager = new_TaskManager, sdk = fresh_sdk, console = []\<rparr>"

definition log :: "jsval list \<Rightarrow> program_state \<Rightarrow> program_state" where
  "log args s = s\<lparr>console := console s @ [ConsoleLog args]\<rparr>"

text \<open>
  \<^verbatim>\<open>async start() {
      this.database = await Database.open({name: "mydb", version: 1, collections: { tasks: {} }});
      this.query = this.database.createQuery(`SELECT * FROM tasks WHERE assignedTo = $userId AND completed = false`);
      this.query.parameters = { userId: 'current-user' };
      this.listenerToken = this.query.addChangeListener(results => { this.onResultsChanged(results); });
      console.log('Live query started');
  }\<close>
  Whether \<open>Database.open\<close> succeeds is the SDK's answer and an argument of the model.
  When it fails, the promise of \<open>start\<close> rejects before any field is assigned.
\<close>

definition TaskManager_start :: "bool \<Rightarrow> program_state \<Rightarrow> program_state" where
  "TaskManager_start opened s =
     (if \<not> opened then s
      else
        (case new_handle (sdk s) of (db, sdk1) \<Rightarrow>
         case new_handle sdk1 of (q, sdk2) \<Rightarrow>
         case addChangeListener (set_parameters q [(''userId'', JStr ''current-user'')] sdk2) of
           (token, sdk3) \<Rightarrow>
             log [JStr ''Live query started'']
               (s\<lparr>manager := (manager s)\<lparr>database := Some db, query := Some q,
                                           listenerToken := Some token\<rparr>,
                  sdk := sdk3\<rparr>)))"

text \<open>
  \<^verbatim>\<open>onResultsChanged(results) { console.log(`Tasks updated: ${results.length}`); this.updateUI(results); }\<close>
  \<open>updateUI\<close> has an empty body.
\<close>

definition TaskManager_onResultsChanged :: "runtime \<Rightarrow> jsval list \<Rightarrow> program_state \<Rightarrow> program_state" where
  "TaskManager_onResultsChanged rt results s =
     log [JStr (''Tasks updated: '' @ number_to_string rt (Fin (real (length results))))] s"

text \<open>
  \<^verbatim>\<open>updateParameters(userId) { if (this.query) { this.query.parameters = { userId }; } }\<close>
\<close>

definition TaskManager_updateParameters :: "string \<Rightarrow> program_state \<Rightarrow> program_state" where
  "TaskManager_updateParameters userId s =
     (case query (manager s) of
        None \<Rightarrow> s
      | Some q \<Rightarrow> s\<lparr>sdk := set_parameters q [(''userId'', JStr userId)] (sdk s)\<rparr>)"

text \<open>
  \<^verbatim>\<open>stop() {
      if (this.listenerToken) {
          this.listenerToken.remove();
          this.listenerToken = null;
          console.log('Live query stopped');
      }
  }\<close>
\<close>

definition TaskManager_stop :: "program_state \<Rightarrow> program_state" where
  "TaskManager_stop s =
     (case listenerToken (manager s) of
        None \<Rightarrow> s
      | Some token \<Rightarrow>
          log [JStr ''Live query stopped'']
            (s\<lparr>sdk := token_remove token (sdk s),
               manager := (manager s)\<lparr>listenerToken := None\<rparr>\<rparr>))"

text \<open>
  A use of the class is a sequence of method calls on \<open>new TaskManager()\<close>. \<open>Start True\<close>
  is a call of \<open>start\<close> that completes, \<open>Start False\<close> one whose \<open>Database.open\<close> fails.
\<close>

datatype method_call = Start bool | OnResultsChanged "jsval list" | UpdateParameters string | Stop

fun call :: "runtime \<Rightarrow> program_state \<Rightarrow> method_call \<Rightarrow> program_state" where
  "call rt s (Start opened) = TaskManager_start opened s"
| "call rt s (OnResultsChanged results) = TaskManager_onResultsChanged rt results s"
| "call rt s (UpdateParameters userId) = TaskManager_updateParameters userId s"
| "call rt s Stop = TaskManager_stop s"

definition run_calls :: "runtime \<Rightarrow> method_call list \<Rightarrow> program_state" where
  "run_calls rt calls = foldl (call rt) initial_state calls"

text \<open>
  "Between a completed \<open>start()\<close> and the next \<open>stop()\<close>": going back from the last call,
  a completed \<open>start\<close> comes before any \<open>stop\<close>.
\<close>

definition started :: "method_call list \<Rightarrow> bool" where
  "started calls = list_ex (\<lambda>c. c = Start True) (takeWhile (\<lambda>c. c \<noteq> Stop) (rev calls))"

text \<open>
  The invariant the methods keep: the registered tokens are distinct handles the SDK has
  given out, and a token held in \<open>listenerToken\<close> is registered and comes with a query and
  a database.
\<close>

definition manager_inv :: "program_state \<Rightarrow> bool" where
  "manager_inv s =
     (distinct (active_listeners (sdk s)) \<and>
      list_all (\<lambda>t. t < next_handle (sdk s)) (active_listeners (sdk s)) \<and>
      (case listenerToken (manager s) of
         None \<Rightarrow> True
       | Some t \<Rightarrow> t \<in> set (active_listeners (sdk s)) \<and> query (manager s) \<noteq> None
                    \<and> database (manager s) \<noteq> None))"

section \<open>The snippets as programs\<close>

text \<open>
  A snippet is a short JavaScript program: \<open>const\<close> declarations and expression
  statements, with \<open>for ... of\<close>, \<open>if\<close> and \<open>try ... catch\<close> around them. Its
  expressions read variables, build literals, read properties, call methods and functions,
  construct objects, await promises and write callbacks. TypeScript's type annotations
  and assertions are erased.
\<close>

datatype expr =
    Var string
  | Lit jsval
  | ObjLit "string list" "expr list"
  | Member expr string
  | Call expr string "expr list"
  | Apply string "expr list"
  | New string "expr list"
  | Await expr
  | Arrow "string list" "stmt list"
  | Template "expr list"
  | InstanceOf expr string
and stmt =
    Const string expr
  | Do expr
  | ForOf string expr "stmt list"
  | If expr "stmt list" "stmt list"
  | Try "stmt list" string "stmt list"

text \<open>The variables in scope, the most recent binding first.\<close>

type_synonym env = "(string \<times> jsval) list"

text \<open>
  What a snippet does with its values is decided outside the snippets: by the SDK, the
  browser and the language runtime. They are the host, a parameter of the semantics,
  with a state of its own: \<open>invoke\<close> answers a method call \<open>r.m(args)\<close> (a function call
  \<open>f(args)\<close> is the method \<open>call\<close> of \<open>f\<close>, and \<open>new C(args)\<close> the method \<open>new\<close> of \<open>C\<close>),
  \<open>settle\<close> answers \<open>await\<close>, \<open>get_property\<close> a property read, \<open>iterate\<close> gives the
  values a \<open>for ... of\<close> loop runs through, \<open>instance_of\<close> answers \<open>instanceof\<close>,
  \<open>stringify\<close> prints a value inside a template literal and \<open>thrown_value\<close> is the value
  a \<open>catch\<close> clause receives. A call, an await, a property read and the start of a loop
  (over a value that cannot be iterated) may throw.
\<close>

record 'w host =
  invoke :: "jsval \<Rightarrow> string \<Rightarrow> jsval list \<Rightarrow> 'w \<Rightarrow> (js_error + jsval) \<times> 'w"
  settle :: "jsval \<Rightarrow> 'w \<Rightarrow> (js_error + jsval) \<times> 'w"
  get_property :: "jsval \<Rightarrow> string \<Rightarrow> 'w \<Rightarrow> (js_error + jsval) \<times> 'w"
  iterate :: "jsval \<Rightarrow> 'w \<Rightarrow> (js_error + jsval list) \<times> 'w"
  instance_of :: "jsval \<Rightarrow> jsval \<Rightarrow> 'w \<Rightarrow> bool"
  stringify :: "jsval \<Rightarrow> string"
  thrown_value :: "js_error \<Rightarrow> jsval"

text \<open>Reading a variable that is not in scope throws a ReferenceError.\<close>

definition lookup :: "env \<Rightarrow> string \<Rightarrow> 'w \<Rightarrow> (js_error + jsval) \<times> 'w" where
  "lookup env x w = (case map_of env x of None \<Rightarrow> (Inl (ReferenceError x), w) | Some v \<Rightarrow> (Inr v, w))"

text \<open>
  A callback is a function object. The snippet itself never calls it: only the host
  could, when a change arrives.
\<close>

definition function_object :: jsval where
  "function_object = JObj []"

text \<open>Sequencing: an exception ends the evaluation and keeps the host state reached.\<close>

definition and_then ::
  "(js_error + 'a) \<times> 'w \<Rightarrow> ('a \<Rightarrow> 'w \<Rightarrow> (js_error + 'b) \<times> 'w) \<Rightarrow> (js_error + 'b) \<times> 'w" where
  "and_then r f = (case r of (Inl er, w) \<Rightarrow> (Inl er, w) | (Inr v, w) \<Rightarrow> f v w)"


text \<open>Evaluation of expressions, left to right.\<close>

fun eval :: "'w host \<Rightarrow> env \<Rightarrow> expr \<Rightarrow> 'w \<Rightarrow> (js_error + jsval) \<times> 'w"
  and eval_list :: "'w host \<Rightarrow> env \<Rightarrow> expr list \<Rightarrow> 'w \<Rightarrow> (js_error + jsval list) \<times> 'w"
where
  "eval h env (Var x) w = lookup env x w"
| "eval h env (Lit v) w = (Inr v, w)"
| "eval h env (ObjLit ks es) w =
     and_then (eval_list h env es w) (\<lambda>vs w1. (Inr (JObj (zip ks vs)), w1))"
| "eval h env (Member e k) w =
     and_then (eval h env e w) (\<lambda>v w1. get_property h v k w1)"
| "eval h env (Call e m args) w =
     and_then (eval h env e w) (\<lambda>r w1.
     and_then (eval_list h env args w1) (\<lambda>vs w2. invoke h r m vs w2))"
| "eval h env (Apply f args) w =
     and_then (lookup env f w) (\<lambda>fv w1.
     and_then (eval_list h env args w1) (\<lambda>vs w2. invoke h fv ''call'' vs w2))"
| "eval h env (New c args) w =
     and_then (lookup env c w) (\<lambda>cv w1.
     and_then (eval_list h env args w1) (\<lambda>vs w2. invoke h cv ''new'' vs w2))"
| "eval h env (Await e) w =
     and_then (eval h env e w) (\<lambda>v w1. settle h v w1)"
| "eval h env (Arrow ps body) w = (Inr function_object, w)"
| "eval h env (Template parts) w =
     and_then (eval_list h env parts w) (\<lambda>vs w1. (Inr (JStr (concat (map (stringify h) vs))), w1))"
| "eval h env (InstanceOf e c) w =
     and_then (eval h env e w) (\<lambda>v w1.
     and_then (lookup env c w1) (\<lambda>cv w2. (Inr (JBool (instance_of h v cv w2)), w2)))"
| "eval_list h env [] w = (Inr [], w)"
| "eval_list h env (e # es) w =
     and_then (eval h env e w) (\<lambda>v w1.
     and_then (eval_list h env es w1) (\<lambda>vs w2. (Inr (v # vs), w2)))"


text \<open>
  Execution of statements. A statement gives the bindings it adds to its scope, none
  for a loop, a conditional or a \<open>try\<close>, whose blocks have scopes of their own.
\<close>

fun exec :: "'w host \<Rightarrow> env \<Rightarrow> stmt \<Rightarrow> 'w \<Rightarrow> (js_error + env) \<times> 'w"
  and exec_list :: "'w host \<Rightarrow> env \<Rightarrow> stmt list \<Rightarrow> 'w \<Rightarrow> (js_error + env) \<times> 'w"
  and exec_for :: "'w host \<Rightarrow> env \<Rightarrow> string \<Rightarrow> stmt list \<Rightarrow> jsval list \<Rightarrow> 'w \<Rightarrow> (js_error + env) \<times> 'w"
where
  "exec h env (Const x e) w = and_then (eval h env e w) (\<lambda>v w1. (Inr [(x, v)], w1))"
| "exec h env (Do e) w = and_then (eval h env e w) (\<lambda>v w1. (Inr [], w1))"
| "exec h env (ForOf x e body) w =
     and_then (eval h env e w) (\<lambda>v w1.
     and_then (iterate h v w1) (\<lambda>vs w2. exec_for h env x body vs w2))"
| "exec h env (If c yes no) w =
     and_then (eval h env c w) (\<lambda>v w1.
     and_then (if truthy v then exec_list h env yes w1 else exec_list h env no w1)
       (\<lambda>bs w2. (Inr [], w2)))"
| "exec h env (Try body x handler) w =
     (case exec_list h env body w of
        (Inl er, w1) \<Rightarrow>
          and_then (exec_list h ((x, thrown_value h er) # env) handler w1) (\<lambda>bs w2. (Inr [], w2))
      | (Inr bs, w1) \<Rightarrow> (Inr [], w1))"
| "exec_list h env [] w = (Inr [], w)"
| "exec_list h env (s # ss) w =
     and_then (exec h env s w) (\<lambda>bs w1.
     and_then (exec_list h (bs @ env) ss w1) (\<lambda>bs' w2. (Inr (bs' @ bs), w2)))"
| "exec_for h env x body [] w = (Inr [], w)"
| "exec_for h env x body (v # vs) w =
     and_then (exec_list h ((x, v) # env) body w) (\<lambda>bs w1. exec_for h env x body vs w1)"






section \<open>A host that records what a snippet does\<close>

text \<open>
  To run a snippet a host is needed. The recording host stands in for the SDK, the
  console and the runtime: it records every call and every await as an event, answers
  a call with a fresh object, and keeps the SDK's registry of change listeners (as in
  the section on TaskManager): \<open>addChangeListener\<close> and \<open>addDocumentChangeListener\<close> register
  a listener and return its token; \<open>token.remove()\<close>, \<open>removeChangeListener(token)\<close> and
  \<open>removeDocumentChangeListener(token)\<close> take it away. An \<open>Invoked\<close> event holds the
  receiver, the method, the arguments and the answer; \<open>Settled\<close> holds the awaited value.
  The value an awaited promise resolves to is identified with the promise.
\<close>

datatype event = Invoked jsval string "jsval list" jsval | Settled jsval

record host_world =
  handles :: sdk_state
  events :: "event list"

text \<open>
  The host's objects: an object the SDK answered with, a global such as \<open>Database\<close> or
  \<open>console\<close>, and a property of a host object, such as \<open>database.collections\<close>.
\<close>

definition handle_object :: "nat \<Rightarrow> jsval" where
  "handle_object n = JObj [(''[[handle]]'', JNum (Fin (real n)))]"

definition global_object :: "string \<Rightarrow> jsval" where
  "global_object name = JObj [(''[[global]]'', JStr name)]"

definition property_object :: "jsval \<Rightarrow> string \<Rightarrow> jsval" where
  "property_object v k = JObj [(''[[property]]'', JStr k), (''[[of]]'', v)]"

definition is_host_object :: "jsobj \<Rightarrow> bool" where
  "is_host_object kvs =
     list_ex (\<lambda>k. k = ''[[handle]]'' \<or> k = ''[[global]]'' \<or> k = ''[[property]]'') (map fst kvs)"

fun handle_of :: "jsval \<Rightarrow> nat option" where
  "handle_of (JObj [(k, JNum (Fin r))]) = (if k = ''[[handle]]'' then Some (nat \<lfloor>r\<rfloor>) else None)"
| "handle_of v = None"

definition unregister :: "nat option \<Rightarrow> sdk_state \<Rightarrow> sdk_state" where
  "unregister token s = (case token of None \<Rightarrow> s | Some t \<Rightarrow> token_remove t s)"

text \<open>The answer to a call and its effect on the listener registry. The console answers \<open>undefined\<close>.\<close>

definition record_answer :: "jsval \<Rightarrow> string \<Rightarrow> jsval list \<Rightarrow> sdk_state \<Rightarrow> jsval \<times> sdk_state" where
  "record_answer r m args s =
     (if r = global_object ''console'' then (JUndefined, s)
      else if m = ''addChangeListener'' \<or> m = ''addDocumentChangeListener'' then
        (case addChangeListener s of (t, s') \<Rightarrow> (handle_object t, s'))
      else if m = ''remove'' then (JUndefined, unregister (handle_of r) s)
      else if m = ''removeChangeListener'' \<or> m = ''removeDocumentChangeListener'' then
        (JUndefined, unregister (case args of [] \<Rightarrow> None | a # rest \<Rightarrow> handle_of a) s)
      else (case new_handle s of (n, s') \<Rightarrow> (handle_object n, s')))"

definition record_invoke ::
  "jsval \<Rightarrow> string \<Rightarrow> jsval list \<Rightarrow> host_world \<Rightarrow> (js_error + jsval) \<times> host_world" where
  "record_invoke r m args w =
     (case record_answer r m args (handles w) of
        (res, s) \<Rightarrow> (Inr res, \<lparr>handles = s, events = events w @ [Invoked r m args res]\<rparr>))"

definition record_settle :: "jsval \<Rightarrow> host_world \<Rightarrow> (js_error + jsval) \<times> host_world" where
  "record_settle v w = (Inr v, w\<lparr>events := events w @ [Settled v]\<rparr>)"

text \<open>
  A property read: an object's own property; any other property of a host object is a
  host object again, of a plain object \<open>undefined\<close>; \<open>undefined\<close> and \<open>null\<close> throw.
\<close>

definition record_get_property ::
  "jsval \<Rightarrow> string \<Rightarrow> host_world \<Rightarrow> (js_error + jsval) \<times> host_world" where
  "record_get_property v k w =
     ((case v of
         JObj kvs \<Rightarrow>
           (case map_of kvs k of
              Some x \<Rightarrow> Inr x
            | None \<Rightarrow> if is_host_object kvs then Inr (property_object v k) else Inr JUndefined)
       | _ \<Rightarrow> member v k), w)"

text \<open>
  The rows a \<open>for ... of\<close> loop runs through are the host's parameter: what the query
  of the snippet returned. A loop over \<open>undefined\<close> or \<open>null\<close> throws a TypeError.
\<close>

definition recording_host :: "jsval list \<Rightarrow> host_world host" where
  "recording_host rows =
     \<lparr>invoke = record_invoke,
      settle = record_settle,
      get_property = record_get_property,
      iterate = (\<lambda>v w. (case v of JUndefined \<Rightarrow> Inl TypeError | JNull \<Rightarrow> Inl TypeError
                                   | _ \<Rightarrow> Inr rows, w)),
      instance_of = (\<lambda>v c w. False),
      stringify = ToString letters_runtime,
      thrown_value = (\<lambda>er. JObj [(''name'',
         JStr (case er of TypeError \<Rightarrow> ''TypeError'' | ReferenceError x \<Rightarrow> ''ReferenceError''))])\<rparr>"

definition fresh_world :: host_world where
  "fresh_world = \<lparr>handles = fresh_sdk, events = []\<rparr>"

text \<open>
  The scope of a module before any snippet: the imports and the browser's globals the
  snippets use, and the helper functions the files declare for their callbacks.
\<close>

definition globals :: env where
  "globals = map (\<lambda>name. (name, global_object name))
     [''Database'', ''Replicator'', ''console'', ''Date'', ''setTimeout'',
      ''updateTaskList'', ''trackMetric'', ''updateUI'', ''processResults'', ''processRow'']"

section \<open>Snippets of code_snippets.js and replication_snippets.js\<close>

text \<open>
  Each definition is the code between a \<open>tag::name[]\<close> and its \<open>end::name[]\<close> comment,
  statement by statement. Line numbers are those of code_snippets.js unless said otherwise.
  A literal without holes is a \<open>Lit\<close>; an array literal is the object of its elements
  and \<open>length\<close>; the line breaks and indentation inside a query string are written as
  single spaces.

  open-database (lines 38 to 51), close-database (87 to 91), create-query (302 to 310)
  and execute-query (312 to 322).
\<close>

definition open_database :: "stmt list" where
  "open_database =
     [Const ''config'' (Lit (JObj
        [(''name'', JStr ''myapp''), (''version'', JNum (Fin 1)),
         (''collections'', JObj [(''tasks'', JObj []), (''users'', JObj [])])])),
      Const ''database'' (Await (Call (Var ''Database'') ''open'' [Var ''config''])),
      Do (Call (Var ''console'') ''log'' [Lit (JStr ''Database opened:''), Member (Var ''database'') ''name''])]"

definition close_database :: "stmt list" where
  "close_database =
     [Do (Await (Call (Var ''database'') ''close'' [])),
      Do (Call (Var ''console'') ''log'' [Lit (JStr ''Database closed'')])]"

definition create_query :: "stmt list" where
  "create_query =
     [Const ''query'' (Call (Var ''database'') ''createQuery''
        [Lit (JStr ''SELECT * FROM tasks WHERE completed = false ORDER BY createdAt DESC'')])]"

definition execute_query :: "stmt list" where
  "execute_query =
     [Const ''results'' (Await (Call (Var ''query'') ''execute'' [])),
      ForOf ''row'' (Var ''results'')
        [Const ''task'' (Member (Var ''row'') ''tasks''),
         Do (Call (Var ''console'') ''log''
               [Template [Lit (JStr ''Task: ''), Member (Var ''task'') ''title'']])],
      Do (Call (Var ''console'') ''log''
            [Template [Lit (JStr ''Found ''), Member (Var ''results'') ''length'', Lit (JStr '' tasks'')]])]"

text \<open>A result of \<open>SELECT * FROM tasks\<close>: one row, under the collection's name.\<close>

definition task_rows :: "jsval list" where
  "task_rows = [JObj [(''tasks'', JObj [(''title'', JStr ''Buy milk'')])]]"

text \<open>
  open-database-encrypted (lines 71 to 85), access-collection (160 to 166),
  create-document (222 to 233) and delete-document (269 to 273).
\<close>

definition open_database_encrypted :: "stmt list" where
  "open_database_encrypted =
     [Const ''encryptedConfig'' (Lit (JObj
        [(''name'', JStr ''secure-app''), (''version'', JNum (Fin 1)),
         (''password'', JStr ''my-secure-password''),
         (''collections'', JObj [(''users'', JObj [(''unencryptedProperties'',
            JObj [(''0'', JStr ''username''), (''1'', JStr ''email''), (''length'', JNum (Fin 2))])])])])),
      Const ''secureDb'' (Await (Call (Var ''Database'') ''open'' [Var ''encryptedConfig'']))]"

definition access_collection :: "stmt list" where
  "access_collection =
     [Const ''tasks'' (Member (Member (Var ''database'') ''collections'') ''tasks''),
      Const ''users'' (Member (Member (Var ''database'') ''collections'') ''users'')]"

definition create_document :: "stmt list" where
  "create_document =
     [Const ''task'' (ObjLit [''type'', ''title'', ''completed'', ''createdAt'']
        [Lit (JStr ''task''), Lit (JStr ''Learn Couchbase Lite''), Lit (JBool False),
         Call (New ''Date'' []) ''toISOString'' []]),
      Const ''savedDoc'' (Await (Call (Var ''tasks'') ''save'' [Var ''task''])),
      Do (Call (Var ''console'') ''log''
            [Lit (JStr ''Document created with ID:''), Member (Var ''savedDoc'') ''_id''])]"

definition delete_document :: "stmt list" where
  "delete_document =
     [Do (Await (Call (Var ''tasks'') ''deleteDocument'' [Member (Var ''savedDoc'') ''_id''])),
      Do (Call (Var ''console'') ''log'' [Lit (JStr ''Document deleted'')])]"

text \<open>create-live-query (lines 351 to 370) and stop-live-query (372 to 375).\<close>

definition create_live_query :: "stmt list" where
  "create_live_query =
     [Const ''liveQuery'' (Call (Var ''database'') ''createQuery''
        [Lit (JStr ''SELECT * FROM tasks WHERE completed = false ORDER BY createdAt DESC'')]),
      Do (Call (Var ''liveQuery'') ''addChangeListener''
        [Arrow [''results'']
           [Do (Call (Var ''console'') ''log''
                  [Lit (JStr ''Query results updated:''), Member (Var ''results'') ''length'']),
            Do (Apply ''updateTaskList'' [Var ''results''])]]),
      Do (Call (Var ''liveQuery'') ''start'' [])]"

definition stop_live_query :: "stmt list" where
  "stop_live_query = [Do (Call (Var ''liveQuery'') ''stop'' [])]"

text \<open>
  create-replicator (lines 410 to 423), start-replication (443 to 447) and
  stop-replication (449 to 453), which awaits \<open>replicator.stop()\<close>; and stop-replicator of
  replication_snippets.js (lines 288 to 292), which calls it without \<open>await\<close>.
\<close>

definition create_replicator :: "stmt list" where
  "create_replicator =
     [Const ''replicatorConfig'' (ObjLit [''database'', ''url'', ''collections'', ''continuous'']
        [Var ''database'',
         Lit (JStr ''wss://sync-gateway.example.com:4984/myapp''),
         Lit (JObj [(''tasks'', JObj [(''pull'', JObj []), (''push'', JObj [])]),
                    (''users'', JObj [(''pull'', JObj []), (''push'', JObj [])])]),
         Lit (JBool True)]),
      Const ''replicator'' (New ''Replicator'' [Var ''replicatorConfig''])]"

definition start_replication :: "stmt list" where
  "start_replication =
     [Do (Await (Call (Var ''replicator'') ''start'' [])),
      Do (Call (Var ''console'') ''log'' [Lit (JStr ''Replication started'')])]"



text \<open>collection-change-listener (lines 490 to 502) and document-change-listener (504 to 512).\<close>

definition collection_change_listener :: "stmt list" where
  "collection_change_listener =
     [Const ''token'' (Call (Var ''tasks'') ''addChangeListener''
        [Arrow [''changes'']
           [Do (Call (Var ''console'') ''log''
                  [Template [Member (Member (Var ''changes'') ''documentIDs'') ''length'',
                             Lit (JStr '' documents changed'')]]),
            ForOf ''docId'' (Member (Var ''changes'') ''documentIDs'')
              [Do (Call (Var ''console'') ''log'' [Lit (JStr ''Changed document:''), Var ''docId''])]]]),
      Do (Call (Var ''tasks'') ''removeChangeListener'' [Var ''token''])]"

definition document_change_listener :: "stmt list" where
  "document_change_listener =
     [Const ''docToken'' (Call (Var ''tasks'') ''addDocumentChangeListener''
        [Member (Var ''savedDoc'') ''_id'',
         Arrow [''change'']
           [Do (Call (Var ''console'') ''log''
                  [Lit (JStr ''Document changed:''), Member (Var ''change'') ''documentID''])]]),
      Do (Call (Var ''tasks'') ''removeDocumentChangeListener'' [Var ''docToken''])]"


text \<open>
  blob-in-results (lines 2339 to 2360), and a result with one row whose \<open>attachment\<close>
  is a blob of the SDK.
\<close>

definition blob_in_results :: "stmt list" where
  "blob_in_results =
     [Const ''query'' (Call (Var ''database'') ''createQuery''
        [Lit (JStr ''SELECT title, attachment FROM documents WHERE attachment IS NOT NULL'')]),
      Const ''results'' (Await (Call (Var ''query'') ''execute'' [])),
      ForOf ''row'' (Var ''results'')
        [If (Member (Var ''row'') ''attachment'')
           [Const ''blob'' (Member (Var ''row'') ''attachment''),
            Const ''url'' (Call (Var ''blob'') ''getURL'' []),
            Const ''data'' (Await (Call (Var ''blob'') ''getArrayBuffer'' [])),
            Do (Call (Var ''console'') ''log''
                  [Template [Lit (JStr ''Document: ''), Member (Var ''row'') ''title'']]),
            Do (Call (Var ''console'') ''log''
                  [Template [Lit (JStr ''Attachment size: ''), Member (Var ''blob'') ''length'',
                             Lit (JStr '' bytes'')]])]
           []]]"

definition blob_rows :: "jsval list" where
  "blob_rows = [JObj [(''title'', JStr ''Report''), (''attachment'', global_object ''Blob'')]]"

section \<open>Blocks of queries.ts\<close>

text \<open>
  queries.ts puts each example in a block of its own, \<open>{ ... }\<close>, which opens a database
  before the tagged lines and, in some blocks, removes the listener after them. A
  definition is the whole block. Every block starts with
  \<^verbatim>\<open>const database = await Database.open({name: "mydb", version: 1, collections: { tasks: {} }});\<close>

  The blocks: live-query (lines 4 to 37), remove-listener (39 to 52), multiple-listeners
  (54 to 81), typescript-live-query (83 to 111) and live-query-errors (113 to 138).
\<close>

definition open_mydb :: stmt where
  "open_mydb = Const ''database'' (Await (Call (Var ''Database'') ''open''
     [Lit (JObj [(''name'', JStr ''mydb''), (''version'', JNum (Fin 1)),
                 (''collections'', JObj [(''tasks'', JObj [])])])]))"

definition live_query_block :: "stmt list" where
  "live_query_block =
     [open_mydb,
      Const ''query'' (Call (Var ''database'') ''createQuery''
        [Lit (JStr ''SELECT title FROM tasks WHERE completed = false ORDER BY createdAt DESC'')]),
      Const ''token'' (Call (Var ''query'') ''addChangeListener''
        [Arrow [''results'']
           [Do (Call (Var ''console'') ''log''
                  [Template [Lit (JStr ''Query results updated: ''),
                             Member (Var ''results'') ''length'', Lit (JStr '' tasks'')]]),
            Do (Call (Var ''results'') ''forEach''
                  [Arrow [''row'']
                     [Const ''task'' (Var ''row''),
                      Do (Call (Var ''console'') ''log''
                            [Template [Lit (JStr ''Task: ''), Member (Var ''task'') ''title'']])]]),
            Do (Apply ''updateTaskList'' [Var ''results''])]]),
      Do (Call (Var ''token'') ''remove'' [])]"

definition remove_listener_block :: "stmt list" where
  "remove_listener_block =
     [open_mydb,
      Const ''query'' (Call (Var ''database'') ''createQuery''
        [Lit (JStr ''SELECT * FROM tasks WHERE completed = false'')]),
      Const ''token'' (Call (Var ''query'') ''addChangeListener''
        [Arrow [''_''] [Do (Call (Var ''console'') ''log'' [Lit (JStr ''Results updated'')])]]),
      Do (Call (Var ''token'') ''remove'' []),
      Do (Call (Var ''console'') ''log'' [Lit (JStr ''Listener removed'')])]"

definition multiple_listeners_block :: "stmt list" where
  "multiple_listeners_block =
     [open_mydb,
      Const ''query'' (Call (Var ''database'') ''createQuery''
        [Lit (JStr ''SELECT * FROM tasks WHERE priority >= 3'')]),
      Const ''uiToken'' (Call (Var ''query'') ''addChangeListener''
        [Arrow [''results''] [Do (Apply ''updateTaskList'' [Var ''results''])]]),
      Const ''logToken'' (Call (Var ''query'') ''addChangeListener''
        [Arrow [''results'']
           [Do (Call (Var ''console'') ''log''
                  [Template [Lit (JStr ''High priority tasks: ''), Member (Var ''results'') ''length'']])]]),
      Const ''analyticsToken'' (Call (Var ''query'') ''addChangeListener''
        [Arrow [''results'']
           [Do (Apply ''trackMetric''
                  [Lit (JStr ''high_priority_tasks''), Member (Var ''results'') ''length''])]]),
      Do (Call (Var ''uiToken'') ''remove'' []),
      Do (Call (Var ''logToken'') ''remove'' []),
      Do (Call (Var ''analyticsToken'') ''remove'' [])]"

definition typescript_live_query_block :: "stmt list" where
  "typescript_live_query_block =
     [open_mydb,
      Const ''query'' (Call (Var ''database'') ''createQuery''
        [Lit (JStr ''SELECT title, completed, priority, createdAt FROM tasks WHERE completed = false'')]),
      Const ''token'' (Call (Var ''query'') ''addChangeListener''
        [Arrow [''results'']
           [Do (Call (Var ''results'') ''forEach''
                  [Arrow [''t'']
                     [Const ''task'' (Var ''t''),
                      Const ''title'' (Member (Var ''task'') ''title''),
                      Const ''priority'' (Member (Var ''task'') ''priority''),
                      Do (Call (Var ''console'') ''log''
                            [Template [Var ''title'', Lit (JStr '' - Priority: ''), Var ''priority'']])]])]])]"

definition live_query_errors_block :: "stmt list" where
  "live_query_errors_block =
     [open_mydb,
      Const ''query'' (Call (Var ''database'') ''createQuery'' [Lit (JStr ''SELECT * FROM tasks'')]),
      Do (Call (Var ''query'') ''addChangeListener''
        [Arrow [''results'']
           [Try [Do (Apply ''updateUI'' [Var ''results''])]
              ''error''
              [Do (Call (Var ''console'') ''error''
                     [Lit (JStr ''Error updating UI:''), Var ''error''])]]]),
      Try [Do (Call (Var ''query'') ''addChangeListener''
             [Arrow [''results''] [Do (Apply ''processResults'' [Var ''results''])]])]
        ''error''
        [Do (Call (Var ''console'') ''error''
               [Lit (JStr ''Failed to create live query listener:''), Var ''error''])]]"

section \<open>Running snippets\<close>

text \<open>
  A run starts in the module's scope with a fresh host. It is observed by whether it
  completes, by the listeners still registered at its end and by its events.
\<close>

definition run :: "jsval list \<Rightarrow> stmt list \<Rightarrow> (js_error + env) \<times> host_world" where
  "run rows ss = exec_list (recording_host rows) globals ss fresh_world"

definition completes :: "(js_error + env) \<times> host_world \<Rightarrow> bool" where
  "completes r = (case fst r of Inl er \<Rightarrow> False | Inr bs \<Rightarrow> True)"

definition listeners_left :: "(js_error + env) \<times> host_world \<Rightarrow> nat list" where
  "listeners_left r = active_listeners (handles (snd r))"




definition database_world :: host_world where
  "database_world =
     \<lparr>handles = \<lparr>next_handle = 1, active_listeners = [], query_parameters = []\<rparr>, events = []\<rparr>"


text \<open>The events of a snippet itself, run after the snippets that bind the variables it reads.\<close>

definition own_events :: "jsval list \<Rightarrow> stmt list \<Rightarrow> stmt list \<Rightarrow> event list" where
  "own_events rows setup snippet =
     drop (length (events (snd (run rows setup)))) (events (snd (run rows (setup @ snippet))))"

section \<open>Topics\<close>

text \<open>
  The topics the corpus is said to show, and the SDK call that stands for each: opening
  or closing a database; saving, reading, deleting or purging a document; executing a
  query; adding a change listener to a query obtained from \<open>createQuery\<close>; constructing
  a \<open>Replicator\<close>; reading a blob's URL or bytes; opening a database with a password.
\<close>

datatype topic = DatabaseOpenClose | Crud | Querying | LiveQueries | Replication | Blobs | Encryption

definition invoked :: "event \<Rightarrow> (jsval \<Rightarrow> string \<Rightarrow> jsval list \<Rightarrow> jsval \<Rightarrow> bool) \<Rightarrow> bool" where
  "invoked e p = (case e of Invoked r m args res \<Rightarrow> p r m args res | Settled v \<Rightarrow> False)"

definition topic_call :: "topic \<Rightarrow> event list \<Rightarrow> event \<Rightarrow> bool" where
  "topic_call t evs e =
     (case t of
        DatabaseOpenClose \<Rightarrow>
          invoked e (\<lambda>r m args res. (r = global_object ''Database'' \<and> m = ''open'') \<or> m = ''close'')
      | Crud \<Rightarrow>
          invoked e (\<lambda>r m args res. m \<in> {''save'', ''getDocument'', ''deleteDocument'', ''purge''})
      | Querying \<Rightarrow> invoked e (\<lambda>r m args res. m = ''execute'')
      | LiveQueries \<Rightarrow>
          invoked e (\<lambda>r m args res. m = ''addChangeListener'' \<and>
            list_ex (\<lambda>e'. invoked e' (\<lambda>r' m' args' res'. m' = ''createQuery'' \<and> res' = r)) evs)
      | Replication \<Rightarrow>
          invoked e (\<lambda>r m args res. r = global_object ''Replicator'' \<and> m = ''new'')
      | Blobs \<Rightarrow> invoked e (\<lambda>r m args res. m \<in> {''getURL'', ''getArrayBuffer''})
      | Encryption \<Rightarrow>
          invoked e (\<lambda>r m args res. r = global_object ''Database'' \<and> m = ''open'' \<and>
            list_ex (\<lambda>config. case config of JObj kvs \<Rightarrow> truthy (field kvs ''password'') | _ \<Rightarrow> False) args))"

definition covers :: "topic \<Rightarrow> event list \<Rightarrow> bool" where
  "covers t evs = list_ex (topic_call t evs) evs"

text \<open>The tagged snippets transcribed above, each with the events of its own run.\<close>

definition tagged_snippets :: "(string \<times> event list) list" where
  "tagged_snippets =
     [(''open-database'', own_events [] [] open_database),
      (''open-database-encrypted'', own_events [] [] open_database_encrypted),
      (''close-database'', own_events [] open_database close_database),
      (''create-document'', own_events [] (open_database @ access_collection) create_document),
      (''delete-document'',
         own_events [] (open_database @ access_collection @ create_document) delete_document),
      (''execute-query'', own_events task_rows (open_database @ create_query) execute_query),
      (''create-live-query'', own_events [] open_database create_live_query),
      (''create-replicator'', own_events [] open_database create_replicator),
      (''blob-in-results'', own_events blob_rows open_database blob_in_results)]"




section \<open>The pull filter of the pull-filter snippet\<close>


section \<open>Properties of the push filter\<close>




section \<open>Properties of the error-handling status handler\<close>

lemma truthy_member: "truthy v \<Longrightarrow> \<exists>w. member v k = Inr w"
  by (cases v) auto

lemma code_switch_single: "\<exists>c. code_switch code = [c]"
  by (simp add: code_switch_def)

lemma code_switch_report:
  "map report_of (code_switch code) = [Some (expected_report code)]"
  by (auto simp: code_switch_def expected_report_def strict_eq_num_def)

text \<open>
  Claim C4. The handler classifies only when \<open>status.error\<close> is set: a status whose
  \<open>error\<close> is absent (or otherwise falsy) makes no console call and throws nothing, and
  the handler never throws. Its switch maps every code to exactly one report: 401 and
  404 to a no-retry error report, 408, 429, 500, 502, 503, 504 and 1001 to a will-retry
  report, any other code to the default unexpected-code report, which carries the code.
  The handler runs the switch when \<open>error.code\<close> is truthy, between the
  \<open>Replication error:\<close> line and the check of \<open>status.status\<close>, and passes it by when
  \<open>error.code\<close> is missing, \<open>0\<close> or otherwise falsy.
\<close>

theorem error_handling_classification:
  "(\<not> truthy (field status ''error'') \<longrightarrow> error_handling_onStatusChange status = ([], None)) \<and>
   (map_of status ''error'' = None \<longrightarrow> error_handling_onStatusChange status = ([], None)) \<and>
   snd (error_handling_onStatusChange status) = None \<and>
   length (code_switch code) = 1 \<and>
   map report_of (code_switch code) = [Some (expected_report code)] \<and>
   (expected_report code = UnexpectedReport \<longrightarrow>
      code_switch code = [ConsoleError [JStr ''Unexpected error code:'', code]]) \<and>
   (truthy (field status ''error'') \<and> member (field status ''error'') ''code'' = Inr code \<and> truthy code \<longrightarrow>
      (\<exists>message. fst (error_handling_onStatusChange status) =
         [ConsoleError [JStr ''Replication error:'', message]] @ code_switch code
           @ status_after_error status)) \<and>
   (truthy (field status ''error'') \<and> member (field status ''error'') ''code'' = Inr code \<and> \<not> truthy code \<longrightarrow>
      (\<exists>message. fst (error_handling_onStatusChange status) =
         [ConsoleError [JStr ''Replication error:'', message]] @ status_after_error status))"
proof -
  have no_error: "\<not> truthy (field status ''error'') \<longrightarrow> error_handling_onStatusChange status = ([], None)"
    by (simp add: error_handling_onStatusChange_def)
  have absent: "map_of status ''error'' = None \<longrightarrow> error_handling_onStatusChange status = ([], None)"
    by (simp add: error_handling_onStatusChange_def field_def)
  have no_throw: "snd (error_handling_onStatusChange status) = None"
  proof (cases "truthy (field status ''error'')")
    case True
    then obtain m c where "member (field status ''error'') ''message'' = Inr m"
      and "member (field status ''error'') ''code'' = Inr c"
      using truthy_member by blast
    with True show ?thesis by (simp add: error_handling_onStatusChange_def)
  next
    case False
    then show ?thesis by (simp add: error_handling_onStatusChange_def)
  qed
  have one: "length (code_switch code) = 1"
    using code_switch_single [of code] by auto
  have dflt: "expected_report code = UnexpectedReport \<longrightarrow>
      code_switch code = [ConsoleError [JStr ''Unexpected error code:'', code]]"
    by (auto simp: code_switch_def expected_report_def strict_eq_num_def split: if_splits)
  have run: "truthy (field status ''error'') \<and> member (field status ''error'') ''code'' = Inr code \<and> truthy code \<longrightarrow>
      (\<exists>message. fst (error_handling_onStatusChange status) =
         [ConsoleError [JStr ''Replication error:'', message]] @ code_switch code
           @ status_after_error status)"
  proof (intro impI, elim conjE)
    assume t: "truthy (field status ''error'')"
      and c: "member (field status ''error'') ''code'' = Inr code" and tc: "truthy code"
    obtain m where "member (field status ''error'') ''message'' = Inr m"
      using truthy_member [OF t] by blast
    with t c tc show "\<exists>message. fst (error_handling_onStatusChange status) =
         [ConsoleError [JStr ''Replication error:'', message]] @ code_switch code
           @ status_after_error status"
      by (simp add: error_handling_onStatusChange_def)
  qed
  have skip: "truthy (field status ''error'') \<and> member (field status ''error'') ''code'' = Inr code \<and> \<not> truthy code \<longrightarrow>
      (\<exists>message. fst (error_handling_onStatusChange status) =
         [ConsoleError [JStr ''Replication error:'', message]] @ status_after_error status)"
  proof (intro impI, elim conjE)
    assume t: "truthy (field status ''error'')"
      and c: "member (field status ''error'') ''code'' = Inr code" and tc: "\<not> truthy code"
    obtain m where "member (field status ''error'') ''message'' = Inr m"
      using truthy_member [OF t] by blast
    with t c tc show "\<exists>message. fst (error_handling_onStatusChange status) =
         [ConsoleError [JStr ''Replication error:'', message]] @ status_after_error status"
      by (simp add: error_handling_onStatusChange_def)
  qed
  from no_error absent no_throw one code_switch_report dflt run skip show ?thesis by blast
qed

theorem error_handling_classification_witness:
  "truthy (field [(''error'', JObj [(''message'', JStr ''timed out''), (''code'', JNum (Fin 408))]),
                  (''status'', JStr ''offline'')] ''error'') \<and>
   error_handling_onStatusChange
     [(''error'', JObj [(''message'', JStr ''timed out''), (''code'', JNum (Fin 408))]),
      (''status'', JStr ''offline'')] =
     ([ConsoleError [JStr ''Replication error:'', JStr ''timed out''],
       ConsoleLog [JStr ''Request timeout - will retry''],
       ConsoleLog [JStr ''Replicator offline - will retry connection'']], None) \<and>
   map report_of (code_switch (JNum (Fin 408))) = [Some WillRetryReport] \<and>
   map_of [(''status'', JStr ''idle'')] ''error'' = None \<and>
   error_handling_onStatusChange [(''status'', JStr ''idle'')] = ([], None) \<and>
   expected_report (JNum (Fin 418)) = UnexpectedReport \<and>
   code_switch (JNum (Fin 418)) = [ConsoleError [JStr ''Unexpected error code:'', JNum (Fin 418)]]"
  using error_handling_classification
      [of "[(''error'', JObj [(''message'', JStr ''timed out''), (''code'', JNum (Fin 408))]),
            (''status'', JStr ''offline'')]" "JNum (Fin 408)"]
    error_handling_classification [of "[(''status'', JStr ''idle'')]" "JNum (Fin 418)"]
  by (simp add: field_def error_handling_onStatusChange_def code_switch_def strict_eq_num_def
      strict_eq_str_def status_after_error_def expected_report_def)

section \<open>Properties of the conflict resolver\<close>

lemma string_less_irrefl: "\<not> string_less s s"
  by (induction s) auto

lemma num_less_irrefl: "num_less n n \<noteq> Some True"
  by (cases n) auto

lemma IsLessThan_irrefl: "IsLessThan rt p p \<noteq> Some True"
  by (cases p) (auto simp: string_less_irrefl num_less_irrefl)

lemma js_gt_irrefl: "\<not> js_gt rt x x"
  by (simp add: js_gt_def IsLessThan_irrefl)

lemma js_or_zero: "js_or v (JNum (Fin 0)) = zero_when_falsy v"
  by (cases v) (auto simp: js_or_def zero_when_falsy_def)


lemma IsLessThan_missing_left:
  "v \<noteq> JStr [] \<Longrightarrow> v \<noteq> JNum NaN \<Longrightarrow>
   IsLessThan rt (ToPrimitive rt (zero_when_falsy v)) p = IsLessThan rt (ToPrimitive rt (zero_when_missing v)) p"
  by (cases v; cases p) (auto simp: zero_when_falsy_def zero_when_missing_def)

lemma IsLessThan_missing_right:
  "v \<noteq> JStr [] \<Longrightarrow> v \<noteq> JNum NaN \<Longrightarrow>
   IsLessThan rt p (ToPrimitive rt (zero_when_falsy v)) = IsLessThan rt p (ToPrimitive rt (zero_when_missing v))"
  by (cases v; cases p) (auto simp: zero_when_falsy_def zero_when_missing_def)

lemma js_gt_missing:
  assumes "a \<noteq> JStr []" "a \<noteq> JNum NaN" "b \<noteq> JStr []" "b \<noteq> JNum NaN"
  shows "js_gt rt (zero_when_falsy a) (zero_when_falsy b) = js_gt rt (zero_when_missing a) (zero_when_missing b)"
proof -
  have "IsLessThan rt (ToPrimitive rt (zero_when_falsy b)) (ToPrimitive rt (zero_when_falsy a))
      = IsLessThan rt (ToPrimitive rt (zero_when_missing b)) (ToPrimitive rt (zero_when_falsy a))"
    using assms(3,4) by (rule IsLessThan_missing_left)
  also have "\<dots> = IsLessThan rt (ToPrimitive rt (zero_when_missing b)) (ToPrimitive rt (zero_when_missing a))"
    using assms(1,2) by (rule IsLessThan_missing_right)
  finally show ?thesis by (simp add: js_gt_def)
qed

text \<open>
  Claim C3, amended. Without a local document the resolver returns the remote one;
  otherwise, without a remote document, the local one; otherwise it returns the remote
  document exactly when \<open>remote.updatedAt\<close> is greater than \<open>local.updatedAt\<close> by the
  language's \<open>>\<close>, each taken as 0 when it is missing or otherwise falsy (\<open>null\<close>,
  \<open>false\<close>, \<open>0\<close>, \<open>NaN\<close> or the empty string), and the local document otherwise. Where
  neither \<open>updatedAt\<close> is the empty string or \<open>NaN\<close> this is the claim's own reading.
  The result is always one of the two inputs, and on equal \<open>updatedAt\<close> it is the local
  document. All of it holds for every runtime.
\<close>

theorem conflictResolver_spec:
  "conflictResolver rt documentID None remote = remote \<and>
   conflictResolver rt documentID (Some l) None = Some l \<and>
   conflictResolver rt documentID (Some l) (Some r) =
     (if js_gt rt (zero_when_falsy (field r ''updatedAt'')) (zero_when_falsy (field l ''updatedAt''))
      then Some r else Some l) \<and>
   (field l ''updatedAt'' \<notin> {JStr [], JNum NaN} \<and> field r ''updatedAt'' \<notin> {JStr [], JNum NaN} \<longrightarrow>
      conflictResolver rt documentID (Some l) (Some r) =
        (if js_gt rt (zero_when_missing (field r ''updatedAt'')) (zero_when_missing (field l ''updatedAt''))
         then Some r else Some l)) \<and>
   conflictResolver rt documentID local remote \<in> {local, remote} \<and>
   (field r ''updatedAt'' = field l ''updatedAt'' \<longrightarrow>
      conflictResolver rt documentID (Some l) (Some r) = Some l)"
proof -
  have both: "conflictResolver rt documentID (Some l) (Some r) =
     (if js_gt rt (zero_when_falsy (field r ''updatedAt'')) (zero_when_falsy (field l ''updatedAt''))
      then Some r else Some l)"
    by (simp add: conflictResolver_def js_or_zero)
  have literal: "field l ''updatedAt'' \<notin> {JStr [], JNum NaN} \<and> field r ''updatedAt'' \<notin> {JStr [], JNum NaN} \<longrightarrow>
      conflictResolver rt documentID (Some l) (Some r) =
        (if js_gt rt (zero_when_missing (field r ''updatedAt'')) (zero_when_missing (field l ''updatedAt''))
         then Some r else Some l)"
    using both js_gt_missing [of "field r ''updatedAt''" "field l ''updatedAt''" rt] by simp
  have one_of: "conflictResolver rt documentID local remote \<in> {local, remote}"
    by (simp add: conflictResolver_def Let_def split: option.splits)
  have tie: "field r ''updatedAt'' = field l ''updatedAt'' \<longrightarrow>
      conflictResolver rt documentID (Some l) (Some r) = Some l"
    using both by (simp add: js_gt_irrefl)
  have absent: "conflictResolver rt documentID None remote = remote"
      "conflictResolver rt documentID (Some l) None = Some l"
    by (simp_all add: conflictResolver_def)
  from absent both literal one_of tie show ?thesis by blast
qed

theorem conflictResolver_spec_witness:
  "conflictResolver letters_runtime (JStr ''task-1'')
      (Some [(''title'', JStr ''local''), (''updatedAt'', JNum (Fin 10))])
      (Some [(''title'', JStr ''remote''), (''updatedAt'', JNum (Fin 20))])
     = Some [(''title'', JStr ''remote''), (''updatedAt'', JNum (Fin 20))] \<and>
   conflictResolver letters_runtime (JStr ''task-1'')
      (Some [(''title'', JStr ''local''), (''updatedAt'', JNum (Fin 10))])
      (Some [(''title'', JStr ''remote'')])
     = Some [(''title'', JStr ''local''), (''updatedAt'', JNum (Fin 10))] \<and>
   field [(''title'', JStr ''remote''), (''updatedAt'', JNum (Fin 10))] ''updatedAt'' =
     field [(''title'', JStr ''local''), (''updatedAt'', JNum (Fin 10))] ''updatedAt'' \<and>
   conflictResolver letters_runtime (JStr ''task-1'')
      (Some [(''title'', JStr ''local''), (''updatedAt'', JNum (Fin 10))])
      (Some [(''title'', JStr ''remote''), (''updatedAt'', JNum (Fin 10))])
     = Some [(''title'', JStr ''local''), (''updatedAt'', JNum (Fin 10))]"
  using conflictResolver_spec [of letters_runtime "JStr ''task-1''" "Some [(''title'', JStr ''remote''), (''updatedAt'', JNum (Fin 20))]"
      "[(''title'', JStr ''local''), (''updatedAt'', JNum (Fin 10))]"
      "[(''title'', JStr ''remote''), (''updatedAt'', JNum (Fin 20))]" "None"]
    conflictResolver_spec [of letters_runtime "JStr ''task-1''" "None"
      "[(''title'', JStr ''local''), (''updatedAt'', JNum (Fin 10))]"
      "[(''title'', JStr ''remote'')]" "None"]
    conflictResolver_spec [of letters_runtime "JStr ''task-1''" "None"
      "[(''title'', JStr ''local''), (''updatedAt'', JNum (Fin 10))]"
      "[(''title'', JStr ''remote''), (''updatedAt'', JNum (Fin 10))]" "None"]
  by (simp add: field_def zero_when_falsy_def zero_when_missing_def js_gt_def)

text \<open>
  The claim as written fails where \<open>updatedAt\<close> is present and empty. With
  \<open>local.updatedAt = ""\<close> and \<open>remote.updatedAt = "a"\<close> neither is missing, and
  \<open>"a" > ""\<close> holds, so the claim returns the remote document. The code replaces the
  empty string by \<open>0\<close> and compares \<open>"a" > 0\<close>, which converts \<open>"a"\<close> to \<open>NaN\<close> and is
  false: it returns the local document.
\<close>

theorem conflictResolver_empty_string_counterexample:
  "js_gt letters_runtime
     (zero_when_missing (field [(''updatedAt'', JStr ''a'')] ''updatedAt''))
     (zero_when_missing (field [(''updatedAt'', JStr [])] ''updatedAt'')) \<and>
   conflictResolver letters_runtime (JStr ''task-1'')
     (Some [(''updatedAt'', JStr [])]) (Some [(''updatedAt'', JStr ''a'')])
     = Some [(''updatedAt'', JStr [])] \<and>
   Some [(''updatedAt'', JStr [])] \<noteq> Some [(''updatedAt'', JStr ''a'')]"
  by (simp add: conflictResolver_def js_or_def js_gt_def field_def zero_when_missing_def
      StringToNumber_def ascii_letter_def)

section \<open>Properties of updateTaskList\<close>

lemma loop_titles:
  "map row_title rows = map Inr titles \<Longrightarrow>
   updateTaskList_loop rt rows kids = (kids @ map (li_with_text rt) titles, None)"
proof (induction rows arbitrary: kids titles)
  case Nil
  then show ?case by simp
next
  case (Cons row rows)
  then obtain t ts' where titles: "titles = t # ts'" and t: "row_title row = Inr t"
    and rest: "map row_title rows = map Inr ts'"
    by (cases titles) auto
  from t obtain task where "member row ''tasks'' = Inr task" "member task ''title'' = Inr t"
    by (auto simp: row_title_def split: sum.splits)
  then show ?case using Cons.IH [OF rest] titles by simp
qed

lemma find_path_sound:
  "find_path i n = Some p \<Longrightarrow> \<exists>t a k. subtree_at n p = Some (Element t a k) \<and> map_of a ''id'' = Some i"
  "find_path_list i ks m = Some p \<Longrightarrow>
     \<exists>j q. p = (m + j) # q \<and> j < length ks \<and> find_path i (ks ! j) = Some q \<and>
        (\<exists>t a k. subtree_at (ks ! j) q = Some (Element t a k) \<and> map_of a ''id'' = Some i)"
proof (induction i n and i ks m arbitrary: p and p rule: find_path_find_path_list.induct)
  case (1 i s)
  then show ?case by simp
next
  case (2 i tag attrs kids)
  show ?case
  proof (cases "map_of attrs ''id'' = Some i")
    case True
    with 2 show ?thesis by simp
  next
    case False
    with 2 have "find_path_list i kids 0 = Some p" by simp
    from 2(1) [OF False this] obtain j q where "p = j # q" "j < length kids"
      "\<exists>t a k. subtree_at (kids ! j) q = Some (Element t a k) \<and> map_of a ''id'' = Some i" by auto
    then show ?thesis by simp
  qed
next
  case (3 i n)
  then show ?case by simp
next
  case (4 i k ks n)
  show ?case
  proof (cases "find_path i k")
    case None
    with 4 have "find_path_list i ks (Suc n) = Some p" by simp
    from 4(2) [OF None this] obtain j q where "p = (Suc n + j) # q" "j < length ks"
      "find_path i (ks ! j) = Some q"
      "\<exists>t a k. subtree_at (ks ! j) q = Some (Element t a k) \<and> map_of a ''id'' = Some i" by auto
    then show ?thesis by (intro exI [of _ "Suc j"] exI [of _ q]) simp
  next
    case (Some q)
    with 4 have "p = n # q" by simp
    with 4(1) [OF Some] Some show ?thesis by (intro exI [of _ 0] exI [of _ q]) simp
  qed
qed

lemma subtree_set_kids:
  "subtree_at n p = Some (Element t a k) \<Longrightarrow>
   subtree_at (set_kids_at n p new) p = Some (Element t a new)"
proof (induction n p new rule: set_kids_at.induct)
  case (1 s p new)
  then show ?case by (cases p) auto
qed (auto split: if_splits)

lemma set_kids_twice:
  "set_kids_at (set_kids_at n p new) p new' = set_kids_at n p new'"
  by (induction n p new rule: set_kids_at.induct) auto


lemma find_path_set_kids:
  "find_path i n = Some p \<Longrightarrow> find_path i (set_kids_at n p new) = Some p"
  "find_path_list i ks m = Some p \<Longrightarrow>
     \<exists>j q. p = (m + j) # q \<and> j < length ks \<and>
       find_path_list i (ks[j := set_kids_at (ks ! j) q new]) m = Some p"
proof (induction i n and i ks m arbitrary: p and p rule: find_path_find_path_list.induct)
  case (1 i s)
  then show ?case by simp
next
  case (2 i tag attrs kids)
  show ?case
  proof (cases "map_of attrs ''id'' = Some i")
    case True
    with 2 show ?thesis by simp
  next
    case False
    with 2 have "find_path_list i kids 0 = Some p" by simp
    from 2(1) [OF False this] obtain j q where "p = j # q" "j < length kids"
      "find_path_list i (kids[j := set_kids_at (kids ! j) q new]) 0 = Some p" by auto
    with False show ?thesis by simp
  qed
next
  case (3 i n)
  then show ?case by simp
next
  case (4 i k ks n)
  show ?case
  proof (cases "find_path i k")
    case None
    with 4 have "find_path_list i ks (Suc n) = Some p" by simp
    from 4(2) [OF None this] obtain j q where "p = (Suc n + j) # q" "j < length ks"
      "find_path_list i (ks[j := set_kids_at (ks ! j) q new]) (Suc n) = Some p" by auto
    with None show ?thesis by (intro exI [of _ "Suc j"] exI [of _ q]) simp
  next
    case (Some q)
    with 4 have "p = n # q" by simp
    with 4(1) [OF Some] Some show ?thesis by (intro exI [of _ 0] exI [of _ q]) simp
  qed
qed


lemma subtree_set_kids_other:
  "\<not> prefix p q \<Longrightarrow> \<not> prefix q p \<Longrightarrow> subtree_at (set_kids_at n p new) q = subtree_at n q"
proof (induction n p new arbitrary: q rule: set_kids_at.induct)
  case (1 s p new)
  then show ?case by simp
next
  case (2 t a kids new)
  then show ?case by simp
next
  case (3 t a kids i p new)
  then obtain j q' where q: "q = j # q'" by (cases q) auto
  show ?case
  proof (cases "i < length kids \<and> j = i")
    case True
    with 3 q show ?thesis by simp
  next
    case False
    with q show ?thesis by (auto simp: nth_list_update)
  qed
qed


text \<open>
  Claim C10, amended. Without an element of id \<open>task-list\<close>, \<open>updateTaskList\<close> leaves the
  page as it is and throws nothing. With such an element, and when every entry of
  \<open>results\<close> has a \<open>tasks\<close> value whose \<open>title\<close> can be read, it throws nothing and leaves
  a page in which that element, still the one \<open>getElementById\<close> finds, keeps its tag and
  attributes and has as children exactly one \<open>li\<close> per entry, in order, showing
  \<open>row.tasks.title\<close>; the two pages are equal once that element's children are removed
  from both, and every node that is neither inside the element nor one of its ancestors
  is unchanged.
\<close>

theorem updateTaskList_frame:
  "(find_path ''task-list'' page = None \<longrightarrow> updateTaskList rt page results = (page, None)) \<and>
   (find_path ''task-list'' page = Some p \<and> map row_title results = map Inr titles \<longrightarrow>
      (\<exists>page' t a old.
         updateTaskList rt page results = (page', None) \<and>
         subtree_at page p = Some (Element t a old) \<and> map_of a ''id'' = Some ''task-list'' \<and>
         subtree_at page' p = Some (Element t a (map (li_with_text rt) titles)) \<and>
         find_path ''task-list'' page' = Some p \<and>
         set_kids_at page' p [] = set_kids_at page p [] \<and>
         (\<forall>q. \<not> prefix p q \<and> \<not> prefix q p \<longrightarrow> subtree_at page' q = subtree_at page q)))"
proof (intro conjI impI)
  assume "find_path ''task-list'' page = None"
  then show "updateTaskList rt page results = (page, None)"
    by (simp add: updateTaskList_def)
next
  assume "find_path ''task-list'' page = Some p \<and> map row_title results = map Inr titles"
  then have p: "find_path ''task-list'' page = Some p"
    and rows: "map row_title results = map Inr titles" by auto
  let ?items = "map (li_with_text rt) titles"
  let ?page' = "set_kids_at page p ?items"
  from loop_titles [OF rows, of rt "[]"]
  have run: "updateTaskList rt page results = (?page', None)"
    using p by (simp add: updateTaskList_def)
  from find_path_sound(1) [OF p] obtain t a old
    where target: "subtree_at page p = Some (Element t a old)" and ident: "map_of a ''id'' = Some ''task-list''"
    by blast
  have new: "subtree_at ?page' p = Some (Element t a ?items)"
    using target by (rule subtree_set_kids)
  have still: "find_path ''task-list'' ?page' = Some p"
    using p by (rule find_path_set_kids(1))
  have frame: "set_kids_at ?page' p [] = set_kids_at page p []"
    by (rule set_kids_twice)
  have others: "\<forall>q. \<not> prefix p q \<and> \<not> prefix q p \<longrightarrow> subtree_at ?page' q = subtree_at page q"
    by (simp add: subtree_set_kids_other)
  from run target ident new still frame others
  show "\<exists>page' t a old.
         updateTaskList rt page results = (page', None) \<and>
         subtree_at page p = Some (Element t a old) \<and> map_of a ''id'' = Some ''task-list'' \<and>
         subtree_at page' p = Some (Element t a (map (li_with_text rt) titles)) \<and>
         find_path ''task-list'' page' = Some p \<and>
         set_kids_at page' p [] = set_kids_at page p [] \<and>
         (\<forall>q. \<not> prefix p q \<and> \<not> prefix q p \<longrightarrow> subtree_at page' q = subtree_at page q)"
    by blast
qed


theorem updateTaskList_frame_witness:
  "find_path ''task-list'' (Element ''body'' [] [Element ''h1'' [] [Text ''Tasks'']]) = None \<and>
   updateTaskList letters_runtime (Element ''body'' [] [Element ''h1'' [] [Text ''Tasks'']])
       [JObj [(''tasks'', JObj [(''title'', JStr ''Buy milk'')])]]
     = (Element ''body'' [] [Element ''h1'' [] [Text ''Tasks'']], None) \<and>
   find_path ''task-list'' page1 = Some [1] \<and>
   map row_title [JObj [(''tasks'', JObj [(''title'', JStr ''Buy milk'')])],
                  JObj [(''tasks'', JObj [(''title'', JStr ''Call Bob'')])]]
     = map Inr [JStr ''Buy milk'', JStr ''Call Bob''] \<and>
   updateTaskList letters_runtime page1
       [JObj [(''tasks'', JObj [(''title'', JStr ''Buy milk'')])],
        JObj [(''tasks'', JObj [(''title'', JStr ''Call Bob'')])]]
     = (Element ''body'' []
          [Element ''h1'' [] [Text ''Tasks''],
           Element ''ul'' [(''id'', ''task-list'')]
             [Element ''li'' [] [Text ''Buy milk''], Element ''li'' [] [Text ''Call Bob'']]],
        None)"
proof -
  let ?plain = "Element ''body'' [] [Element ''h1'' [] [Text ''Tasks'']]"
  let ?rows = "[JObj [(''tasks'', JObj [(''title'', JStr ''Buy milk'')])],
                JObj [(''tasks'', JObj [(''title'', JStr ''Call Bob'')])]]"
  let ?titles = "[JStr ''Buy milk'', JStr ''Call Bob'']"
  have none: "find_path ''task-list'' ?plain = None" by simp
  have unchanged: "updateTaskList letters_runtime ?plain
       [JObj [(''tasks'', JObj [(''title'', JStr ''Buy milk'')])]] = (?plain, None)"
    using updateTaskList_frame [of ?plain letters_runtime
        "[JObj [(''tasks'', JObj [(''title'', JStr ''Buy milk'')])]]" "[]" "[]"] none
    by blast
  have path: "find_path ''task-list'' page1 = Some [1]" by (simp add: page1_def)
  have rows: "map row_title ?rows = map Inr ?titles" by (simp add: row_title_def field_def)
  from updateTaskList_frame [of page1 letters_runtime ?rows "[1]" ?titles] path rows
  obtain page' t a old where run: "updateTaskList letters_runtime page1 ?rows = (page', None)"
    and old: "subtree_at page1 [1] = Some (Element t a old)"
    and new: "subtree_at page' [1] = Some (Element t a (map (li_with_text letters_runtime) ?titles))"
    and frame: "set_kids_at page' [1] [] = set_kids_at page1 [1] []"
    by blast
  have "page' = Element ''body'' []
          [Element ''h1'' [] [Text ''Tasks''],
           Element ''ul'' [(''id'', ''task-list'')]
             [Element ''li'' [] [Text ''Buy milk''], Element ''li'' [] [Text ''Call Bob'']]]"
    using run by (simp add: updateTaskList_def page1_def field_def li_with_text_def dom_string_def ToString_def)
  with none unchanged path rows run show ?thesis by simp
qed

text \<open>
  The claim as written fails for an entry without \<open>tasks\<close>, such as a row of
  \<open>SELECT title FROM tasks\<close>: the list exists and \<open>results\<close> has one entry, but the
  function empties the list, throws a TypeError at \<open>task.title\<close> and leaves no item.
\<close>

theorem updateTaskList_row_without_tasks_counterexample:
  "find_path ''task-list'' page1 = Some [1] \<and>
   length [JObj [(''title'', JStr ''Buy milk'')]] = 1 \<and>
   updateTaskList letters_runtime page1 [JObj [(''title'', JStr ''Buy milk'')]]
     = (Element ''body'' []
          [Element ''h1'' [] [Text ''Tasks''], Element ''ul'' [(''id'', ''task-list'')] []],
        Some TypeError)"
  by (simp add: updateTaskList_def page1_def field_def)

section \<open>Properties of the TaskManager class\<close>

lemma inv_initial: "manager_inv initial_state"
  by (simp add: manager_inv_def initial_state_def new_TaskManager_def fresh_sdk_def)

lemma inv_call: "manager_inv s \<Longrightarrow> manager_inv (call rt s c)"
  by (cases c)
    (auto simp: manager_inv_def TaskManager_start_def TaskManager_stop_def
      TaskManager_updateParameters_def TaskManager_onResultsChanged_def log_def
      new_handle_def addChangeListener_def set_parameters_def token_remove_def list_all_iff
      distinct_removeAll split: option.splits prod.splits)

lemma inv_run: "manager_inv (run_calls rt calls)"
  unfolding run_calls_def
  by (induction calls rule: rev_induct) (simp_all add: inv_initial inv_call)

lemma token_started:
  "listenerToken (manager (run_calls rt calls)) \<noteq> None \<longleftrightarrow> started calls"
  unfolding run_calls_def
proof (induction calls rule: rev_induct)
  case Nil
  then show ?case by (simp add: started_def initial_state_def new_TaskManager_def)
next
  case (snoc c calls)
  then show ?case
    by (cases c)
      (auto simp: started_def TaskManager_start_def TaskManager_stop_def
        TaskManager_updateParameters_def TaskManager_onResultsChanged_def log_def
        new_handle_def addChangeListener_def set_parameters_def token_remove_def
        split: option.splits prod.splits)
qed


lemma stop_removes:
  "listenerToken (manager (run_calls rt calls)) = Some t \<Longrightarrow>
   t \<notin> set (active_listeners (sdk (run_calls rt (calls @ [Stop])))) \<and>
   listenerToken (manager (run_calls rt (calls @ [Stop]))) = None"
  by (simp add: run_calls_def TaskManager_stop_def log_def token_remove_def)

text \<open>
  Claim C8, amended. A class defined in the snippets does carry a lifecycle and an
  invariant of its own: after any sequence of calls on a new \<open>TaskManager\<close>,
  \<open>listenerToken\<close> is non-null exactly between a completed \<open>start()\<close> and the next
  \<open>stop()\<close>; a non-null \<open>listenerToken\<close> is a listener still registered with the SDK and
  comes with a non-null \<open>query\<close> and \<open>database\<close>; \<open>stop()\<close> takes that listener away and
  nulls the token; a completed \<open>start()\<close> sets it.
\<close>

theorem TaskManager_lifecycle:
  "(listenerToken (manager (run_calls rt calls)) \<noteq> None \<longleftrightarrow> started calls) \<and>
   (\<forall>t. listenerToken (manager (run_calls rt calls)) = Some t \<longrightarrow>
      t \<in> set (active_listeners (sdk (run_calls rt calls))) \<and>
      query (manager (run_calls rt calls)) \<noteq> None \<and>
      database (manager (run_calls rt calls)) \<noteq> None \<and>
      t \<notin> set (active_listeners (sdk (run_calls rt (calls @ [Stop]))))) \<and>
   listenerToken (manager (run_calls rt (calls @ [Stop]))) = None \<and>
   listenerToken (manager (run_calls rt (calls @ [Start True]))) \<noteq> None"
proof -
  have a: "listenerToken (manager (run_calls rt calls)) \<noteq> None \<longleftrightarrow> started calls"
    by (rule token_started)
  have b: "\<forall>t. listenerToken (manager (run_calls rt calls)) = Some t \<longrightarrow>
      t \<in> set (active_listeners (sdk (run_calls rt calls))) \<and>
      query (manager (run_calls rt calls)) \<noteq> None \<and>
      database (manager (run_calls rt calls)) \<noteq> None \<and>
      t \<notin> set (active_listeners (sdk (run_calls rt (calls @ [Stop]))))"
    using inv_run [of rt calls] stop_removes [of rt calls]
    by (auto simp: manager_inv_def)
  have c: "listenerToken (manager (run_calls rt (calls @ [Stop]))) = None"
    using token_started [of rt "calls @ [Stop]"] by (simp add: started_def)
  have d: "listenerToken (manager (run_calls rt (calls @ [Start True]))) \<noteq> None"
    using token_started [of rt "calls @ [Start True]"] by (simp add: started_def)
  from a b c d show ?thesis by blast
qed

theorem TaskManager_lifecycle_witness:
  "listenerToken (manager (run_calls letters_runtime [Start True, UpdateParameters ''different-user''])) = Some 2 \<and>
   started [Start True, UpdateParameters ''different-user''] \<and>
   active_listeners (sdk (run_calls letters_runtime [Start True, UpdateParameters ''different-user''])) = [2] \<and>
   active_listeners (sdk (run_calls letters_runtime ([Start True, UpdateParameters ''different-user''] @ [Stop]))) = [] \<and>
   listenerToken (manager (run_calls letters_runtime ([Start True, UpdateParameters ''different-user''] @ [Stop]))) = None"
  using TaskManager_lifecycle [of letters_runtime "[Start True, UpdateParameters ''different-user'']"]
  by (simp add: run_calls_def initial_state_def new_TaskManager_def fresh_sdk_def started_def
      TaskManager_start_def TaskManager_stop_def TaskManager_updateParameters_def log_def
      new_handle_def addChangeListener_def set_parameters_def token_remove_def)

text \<open>
  The claim as written fails on \<open>TaskManager\<close>: what \<open>stop()\<close> does depends on the calls
  before it. On a new object it does nothing; after \<open>start()\<close> it removes the registered
  listener, nulls the token and logs.
\<close>

theorem TaskManager_stop_depends_on_start_counterexample:
  "run_calls letters_runtime [Stop] = initial_state \<and>
   listenerToken (manager (run_calls letters_runtime [Start True])) = Some 2 \<and>
   active_listeners (sdk (run_calls letters_runtime [Start True])) = [2] \<and>
   listenerToken (manager (run_calls letters_runtime [Start True, Stop])) = None \<and>
   active_listeners (sdk (run_calls letters_runtime [Start True, Stop])) = [] \<and>
   console (run_calls letters_runtime [Start True, Stop]) =
     [ConsoleLog [JStr ''Live query started''], ConsoleLog [JStr ''Live query stopped'']]"
  by (simp add: run_calls_def initial_state_def new_TaskManager_def fresh_sdk_def
      TaskManager_start_def TaskManager_stop_def log_def
      new_handle_def addChangeListener_def set_parameters_def token_remove_def)

section \<open>A snippet depends on its scope only through the variables it reads\<close>











section \<open>Properties of the snippets\<close>

lemmas host_simps = recording_host_def globals_def fresh_world_def database_world_def fresh_sdk_def lookup_def
  and_then_def record_invoke_def record_answer_def record_settle_def record_get_property_def new_handle_def
  addChangeListener_def token_remove_def unregister_def
  global_object_def handle_object_def is_host_object_def property_object_def field_def
  ToString_def letters_runtime_def function_object_def

lemmas run_simps = run_def own_events_def covers_def topic_call_def invoked_def host_simps


subsection \<open>Independence of snippets\<close>




subsection \<open>Listeners\<close>

text \<open>
  Claim C5, amended. The listeners registered by the live-query, remove-listener and
  multiple-listeners blocks of queries.ts and by the collection-change-listener and
  document-change-listener snippets are removed within the same block or snippet: each
  run completes and leaves no listener registered. The live-query-errors block registers
  two listeners and the create-live-query snippet one, keep no token and remove none,
  not even with stop-live-query after it.
\<close>

theorem listeners_removed_in_scope:
  "completes (run [] live_query_block) \<and> listeners_left (run [] live_query_block) = [] \<and>
   completes (run [] remove_listener_block) \<and> listeners_left (run [] remove_listener_block) = [] \<and>
   completes (run [] multiple_listeners_block) \<and>
   listeners_left (run [] multiple_listeners_block) = [] \<and>
   completes (run [] (open_database @ access_collection @ create_document @ collection_change_listener)) \<and>
   listeners_left (run [] (open_database @ access_collection @ create_document @ collection_change_listener)) = [] \<and>
   completes (run [] (open_database @ access_collection @ create_document @ document_change_listener)) \<and>
   listeners_left (run [] (open_database @ access_collection @ create_document @ document_change_listener)) = [] \<and>
   completes (run [] live_query_errors_block) \<and>
   length (listeners_left (run [] live_query_errors_block)) = 2 \<and>
   completes (run [] (open_database @ create_live_query @ stop_live_query)) \<and>
   length (listeners_left (run [] (open_database @ create_live_query @ stop_live_query))) = 1"
proof -
  have a: "completes (run [] live_query_block) \<and> listeners_left (run [] live_query_block) = []"
    by (simp add: live_query_block_def open_mydb_def completes_def listeners_left_def run_simps)
  have b: "completes (run [] remove_listener_block) \<and> listeners_left (run [] remove_listener_block) = []"
    by (simp add: remove_listener_block_def open_mydb_def completes_def listeners_left_def run_simps)
  have c: "completes (run [] multiple_listeners_block) \<and>
      listeners_left (run [] multiple_listeners_block) = []"
    by (simp add: multiple_listeners_block_def open_mydb_def completes_def listeners_left_def run_simps)
  have d: "completes (run [] (open_database @ access_collection @ create_document @ collection_change_listener)) \<and>
      listeners_left (run [] (open_database @ access_collection @ create_document @ collection_change_listener)) = []"
    by (simp add: open_database_def access_collection_def create_document_def
        collection_change_listener_def completes_def listeners_left_def run_simps)
  have e: "completes (run [] (open_database @ access_collection @ create_document @ document_change_listener)) \<and>
      listeners_left (run [] (open_database @ access_collection @ create_document @ document_change_listener)) = []"
    by (simp add: open_database_def access_collection_def create_document_def
        document_change_listener_def completes_def listeners_left_def run_simps)
  have f: "completes (run [] live_query_errors_block) \<and>
      length (listeners_left (run [] live_query_errors_block)) = 2"
    by (simp add: live_query_errors_block_def open_mydb_def completes_def listeners_left_def run_simps)
  have g: "completes (run [] (open_database @ create_live_query @ stop_live_query)) \<and>
      length (listeners_left (run [] (open_database @ create_live_query @ stop_live_query))) = 1"
    by (simp add: open_database_def create_live_query_def stop_live_query_def completes_def
        listeners_left_def run_simps)
  from a b c d e f g show ?thesis by blast
qed

text \<open>
  The claim as written fails on the typescript-live-query block: it binds the token of
  its listener and the block ends without removing it, so the listener stays registered.
\<close>

theorem typescript_live_query_keeps_listener_counterexample:
  "completes (run [] typescript_live_query_block) \<and>
   listeners_left (run [] typescript_live_query_block) = [2] \<and>
   listeners_left (run [] typescript_live_query_block) \<noteq> []"
  by (simp add: typescript_live_query_block_def open_mydb_def completes_def listeners_left_def run_simps)

subsection \<open>Awaiting\<close>








subsection \<open>Coverage of the topics\<close>

lemma covers_open_close: "covers DatabaseOpenClose (own_events [] [] open_database)"
  by (simp add: open_database_def run_simps)

lemma covers_crud:
  "covers Crud (own_events [] (open_database @ access_collection) create_document)"
  by (simp add: open_database_def access_collection_def create_document_def run_simps)

lemma covers_querying:
  "covers Querying (own_events task_rows (open_database @ create_query) execute_query)"
  by (simp add: open_database_def create_query_def execute_query_def task_rows_def run_simps)

lemma covers_live: "covers LiveQueries (own_events [] open_database create_live_query)"
  by (simp add: open_database_def create_live_query_def run_simps)

lemma covers_replication: "covers Replication (own_events [] open_database create_replicator)"
  by (simp add: open_database_def create_replicator_def run_simps)

lemma covers_blobs: "covers Blobs (own_events blob_rows open_database blob_in_results)"
  by (simp add: open_database_def blob_in_results_def blob_rows_def run_simps)

lemma covers_encryption: "covers Encryption (own_events [] [] open_database_encrypted)"
  by (simp add: open_database_encrypted_def run_simps)

text \<open>
  Claim C7. For each of the topics database open and close, CRUD, querying, live
  queries, replication, blobs and encryption, some tagged snippet calls the SDK's API of
  that topic when it runs; blob-in-results does so for blobs and open-database-encrypted
  for encryption.
\<close>

theorem every_topic_has_a_snippet: "list_ex (\<lambda>(tag, evs). covers t evs) tagged_snippets"
proof (cases t)
  case DatabaseOpenClose
  then show ?thesis using covers_open_close by (simp add: tagged_snippets_def)
next
  case Crud
  then show ?thesis using covers_crud by (simp add: tagged_snippets_def)
next
  case Querying
  then show ?thesis using covers_querying by (simp add: tagged_snippets_def)
next
  case LiveQueries
  then show ?thesis using covers_live by (simp add: tagged_snippets_def)
next
  case Replication
  then show ?thesis using covers_replication by (simp add: tagged_snippets_def)
next
  case Blobs
  then show ?thesis using covers_blobs by (simp add: tagged_snippets_def)
next
  case Encryption
  then show ?thesis using covers_encryption by (simp add: tagged_snippets_def)
qed

subsection \<open>Functions that decide from document data\<close>





end
